theory Spec2Isabelle
  imports Main
begin

section \<open>JavaScript values, errors and the HTTP transport\<close>

text \<open>
  The front end is JavaScript. The values the stores keep (a user profile, a product
  list, an error message) come out of \<^verbatim>\<open>response.json()\<close> or
  \<^verbatim>\<open>JSON.parse\<close>, so they are JSON values, with \<^verbatim>\<open>undefined\<close> and
  \<^verbatim>\<open>null\<close> beside them. Numbers are kept as integers: the code reads a number only
  for its truthiness and as a product identifier. An object is an association list in
  which the first binding of a key is the property's value.
\<close>

datatype jsval =
    JUndefined
  | JNull
  | JBool bool
  | JNum int
  | JStr string
  | JArr "jsval list"
  | JObj "(string \<times> jsval) list"

text \<open>A thrown value; the string is its \<^verbatim>\<open>message\<close> property.\<close>

datatype js_error = NetworkError string | SyntaxError string | TypeError string

fun message :: "js_error \<Rightarrow> string" where
  "message (NetworkError m) = m"
| "message (SyntaxError m) = m"
| "message (TypeError m) = m"

text \<open>JavaScript's ToBoolean, as \<^verbatim>\<open>!x\<close> and \<^verbatim>\<open>a || b\<close> use it.\<close>

fun truthy :: "jsval \<Rightarrow> bool" where
  "truthy JUndefined = False"
| "truthy JNull = False"
| "truthy (JBool b) = b"
| "truthy (JNum n) = (n \<noteq> 0)"
| "truthy (JStr s) = (s \<noteq> [])"
| "truthy (JArr xs) = True"
| "truthy (JObj kvs) = True"

text \<open>
  Optional chaining \<^verbatim>\<open>v?.k\<close> for a key that no prototype defines (the code uses
  \<^verbatim>\<open>state\<close> and \<^verbatim>\<open>isAuthenticated\<close>): undefined on null and undefined, the
  property on an object, undefined on every other value.
\<close>

fun opt_get :: "jsval \<Rightarrow> string \<Rightarrow> jsval" where
  "opt_get (JObj kvs) k = (case map_of kvs k of None \<Rightarrow> JUndefined | Some v \<Rightarrow> v)"
| "opt_get v k = JUndefined"

text \<open>Plain property access \<^verbatim>\<open>v.k\<close>: a TypeError on null and undefined.\<close>

fun get_prop :: "jsval \<Rightarrow> string \<Rightarrow> js_error + jsval" where
  "get_prop JUndefined k = Inl (TypeError (''Cannot read properties of undefined (reading '' @ k @ '')''))"
| "get_prop JNull k = Inl (TypeError (''Cannot read properties of null (reading '' @ k @ '')''))"
| "get_prop v k = Inr (opt_get v k)"

text \<open>\<^verbatim>\<open>String.prototype.includes\<close>: does \<open>p\<close> occur in \<open>s\<close> as a contiguous run.\<close>

fun starts_with :: "string \<Rightarrow> string \<Rightarrow> bool" where
  "starts_with s [] = True"
| "starts_with [] (p # ps) = False"
| "starts_with (c # cs) (p # ps) = (c = p \<and> starts_with cs ps)"

fun includes_str :: "string \<Rightarrow> string \<Rightarrow> bool" where
  "includes_str [] p = (p = [])"
| "includes_str (c # cs) p = (starts_with (c # cs) p \<or> includes_str cs p)"

text \<open>
  The second argument of \<^verbatim>\<open>fetch\<close>. The fields the code names are here; every
  other field a caller may pass travels in \<open>extra\<close>, which the object spread copies.
  A field that is absent is \<open>None\<close>.
\<close>

record init =
  "method" :: "string option"
  body :: "string option"
  credentials :: "string option"
  headers :: "(string \<times> string) list option"
  extra :: "(string \<times> string) list"

record request =
  target :: string
  init :: init

text \<open>
  A response: the status code and what \<^verbatim>\<open>await response.json()\<close> gives, which
  throws when the body is not JSON.
\<close>

record response =
  status :: nat
  json :: "js_error + jsval"

text \<open>\<^verbatim>\<open>response.ok\<close>: the status is in the range 200 to 299.\<close>

definition ok :: "response \<Rightarrow> bool" where
  "ok r = (200 \<le> status r \<and> status r \<le> 299)"

section \<open>The stores and the world around them\<close>

record auth_state =
  user :: jsval
  isAuthenticated :: bool
  loading :: bool
  error :: jsval

text \<open>
  The product store has fields \<^verbatim>\<open>products\<close>, \<^verbatim>\<open>loading\<close> and
  \<^verbatim>\<open>error\<close>; the last two are prefixed here, two records cannot share a field name.
\<close>

record product_state =
  products :: jsval
  p_loading :: bool
  p_error :: jsval

text \<open>
  Everything the code can change or observe: the two stores, \<^verbatim>\<open>localStorage\<close>,
  \<^verbatim>\<open>window.location.href\<close> (\<open>None\<close> where \<^verbatim>\<open>typeof window\<close> is
  \<^verbatim>\<open>"undefined"\<close>), the requests handed to \<^verbatim>\<open>fetch\<close> so far, oldest first,
  and the lines written with \<^verbatim>\<open>console.error\<close>. A \<^verbatim>\<open>localStorage\<close> is
  always there, also where no window is.
\<close>

record world =
  auth :: auth_state
  store :: product_state
  localStorage :: "(string \<times> string) list"
  window :: "string option"
  requests :: "request list"
  console :: "(string \<times> js_error) list"

text \<open>
  What the platform supplies: the HTTP transport, which answers a request with a
  response or a fault and may depend on all earlier requests; \<^verbatim>\<open>JSON.parse\<close>
  and \<^verbatim>\<open>JSON.stringify\<close> (\<open>None\<close> is \<^verbatim>\<open>undefined\<close>); the string a
  template literal makes of a value; and the environment variable behind
  \<^verbatim>\<open>API_BASE_URL\<close>.
\<close>

record platform =
  transport :: "request list \<Rightarrow> request \<Rightarrow> js_error + response"
  JSON_parse :: "string \<Rightarrow> js_error + jsval"
  JSON_stringify :: "jsval \<Rightarrow> string option"
  ToString :: "jsval \<Rightarrow> string"
  NEXT_PUBLIC_API_URL :: "string option"

text \<open>
  \<^verbatim>\<open>process.env.NEXT_PUBLIC_API_URL || "http://localhost:8000"\<close>: the default also
  replaces an empty string.
\<close>

definition API_BASE_URL :: "platform \<Rightarrow> string" where
  "API_BASE_URL p =
     (case NEXT_PUBLIC_API_URL p of
        None \<Rightarrow> ''http://localhost:8000''
      | Some s \<Rightarrow> if s = [] then ''http://localhost:8000'' else s)"

text \<open>\<^verbatim>\<open>await fetch(url, opts)\<close>: the request is recorded, the transport answers.\<close>

definition fetch :: "platform \<Rightarrow> string \<Rightarrow> init \<Rightarrow> world \<Rightarrow> (js_error + response) \<times> world" where
  "fetch p url opts w =
     (transport p (requests w) \<lparr>target = url, init = opts\<rparr>,
      w\<lparr>requests := requests w @ [\<lparr>target = url, init = opts\<rparr>]\<rparr>)"

text \<open>The requests issued between two worlds.\<close>

definition issued :: "world \<Rightarrow> world \<Rightarrow> request list" where
  "issued w w' = drop (length (requests w)) (requests w')"

definition console_error :: "string \<Rightarrow> js_error \<Rightarrow> world \<Rightarrow> world" where
  "console_error label err w = w\<lparr>console := console w @ [(label, err)]\<rparr>"

subsection \<open>authStore: the persisted copy and clearAuth\<close>

text \<open>
  Both auth stores are created as
  \<^verbatim>\<open>persist((set, get) => ..., { name: "auth-store", partialize: ... })\<close>. The
  \<^verbatim>\<open>set\<close> that the middleware hands to the store updates the state and then writes
  \<^verbatim>\<open>JSON.stringify({ state: partialize(state), version: 0 })\<close> to
  \<^verbatim>\<open>localStorage\<close> under that name, so every \<^verbatim>\<open>set\<close> of the auth store renews
  the persisted copy. \<^verbatim>\<open>localStorage.setItem\<close> stores a string; it would store
  \<^verbatim>\<open>"undefined"\<close> if \<^verbatim>\<open>JSON.stringify\<close> gave \<^verbatim>\<open>undefined\<close>.
\<close>

fun setItem :: "string \<Rightarrow> string \<Rightarrow> (string \<times> string) list \<Rightarrow> (string \<times> string) list" where
  "setItem k v [] = [(k, v)]"
| "setItem k v ((k', v') # kvs) = (if k' = k then (k, v) # kvs else (k', v') # setItem k v kvs)"

definition partialize :: "auth_state \<Rightarrow> jsval" where
  "partialize s = JObj [(''user'', user s), (''isAuthenticated'', JBool (isAuthenticated s))]"

definition persisted :: "auth_state \<Rightarrow> jsval" where
  "persisted s = JObj [(''state'', partialize s), (''version'', JNum 0)]"

definition persist_string :: "platform \<Rightarrow> auth_state \<Rightarrow> string" where
  "persist_string p s = (case JSON_stringify p (persisted s) of None \<Rightarrow> ''undefined'' | Some t \<Rightarrow> t)"

text \<open>\<^verbatim>\<open>set(partial)\<close> of the auth store: the update, then the persisted copy.\<close>

definition set_auth :: "platform \<Rightarrow> (auth_state \<Rightarrow> auth_state) \<Rightarrow> world \<Rightarrow> world" where
  "set_auth p f w =
     w\<lparr>auth := f (auth w),
       localStorage := setItem ''auth-store'' (persist_string p (f (auth w))) (localStorage w)\<rparr>"

definition clearAuth :: "auth_state \<Rightarrow> auth_state" where
  "clearAuth s = s\<lparr>user := JNull, isAuthenticated := False, error := JNull, loading := False\<rparr>"

text \<open>\<^verbatim>\<open>useAuthStore.getState().clearAuth()\<close>, as the code outside the store calls it.\<close>

definition clear_session :: "platform \<Rightarrow> world \<Rightarrow> world" where
  "clear_session p w = set_auth p clearAuth w"

section \<open>fetchWithAuth\<close>

definition isAuthEndpoint :: "string \<Rightarrow> bool" where
  "isAuthEndpoint url =
     (includes_str url ''/auth/login/'' \<or>
      includes_str url ''/auth/refresh/'' \<or>
      includes_str url ''/auth/logout/'')"

text \<open>
  An object spread \<^verbatim>\<open>{...a, ...b}\<close> on string keys: a key of \<open>b\<close> that \<open>a\<close> has
  replaces the value in place, a new key goes to the end.
\<close>

fun set_key :: "string \<Rightarrow> string \<Rightarrow> (string \<times> string) list \<Rightarrow> (string \<times> string) list" where
  "set_key k v [] = [(k, v)]"
| "set_key k v ((k', v') # kvs) = (if k' = k then (k, v) # kvs else (k', v') # set_key k v kvs)"

fun spread :: "(string \<times> string) list \<Rightarrow> (string \<times> string) list \<Rightarrow> (string \<times> string) list" where
  "spread a [] = a"
| "spread a ((k, v) # b) = spread (set_key k v a) b"

text \<open>
  \<^verbatim>\<open>{ ...options, credentials: "include",
     headers: { "Content-Type": "application/json", ...options.headers } }\<close>
\<close>

definition fetchOptions :: "init \<Rightarrow> init" where
  "fetchOptions options =
     options\<lparr>credentials := Some ''include'',
             headers := Some (spread [(''Content-Type'', ''application/json'')]
                               (case headers options of None \<Rightarrow> [] | Some hs \<Rightarrow> hs))\<rparr>"

definition refresh_url :: "platform \<Rightarrow> string" where
  "refresh_url p = API_BASE_URL p @ ''/api/auth/refresh/''"

definition refresh_init :: init where
  "refresh_init =
     \<lparr>method = Some ''POST'', body = None, credentials = Some ''include'',
      headers = Some [(''Content-Type'', ''application/json'')], extra = []\<rparr>"

text \<open>\<^verbatim>\<open>if (typeof window !== "undefined") { window.location.href = "/login"; }\<close>\<close>

definition redirect_login :: "world \<Rightarrow> world" where
  "redirect_login w = (case window w of None \<Rightarrow> w | Some href \<Rightarrow> w\<lparr>window := Some ''/login''\<rparr>)"

text \<open>
  The body of the \<^verbatim>\<open>try\<close> block: the refresh call, then the retry or the
  cleared session. \<open>Inl\<close> is a fault thrown inside the block.
\<close>

definition refresh_then_retry ::
  "platform \<Rightarrow> string \<Rightarrow> init \<Rightarrow> world \<Rightarrow> (js_error + response) \<times> world" where
  "refresh_then_retry p url fopts w =
     (case fetch p (refresh_url p) refresh_init w of
        (Inl err, w1) \<Rightarrow> (Inl err, w1)
      | (Inr refreshResponse, w1) \<Rightarrow>
          if ok refreshResponse then fetch p url fopts w1
          else (Inr refreshResponse, redirect_login (clear_session p w1)))"

text \<open>
  The whole function. A fault of the first \<^verbatim>\<open>fetch\<close> is outside the
  \<^verbatim>\<open>try\<close> and leaves as it is; a fault inside goes through the \<^verbatim>\<open>catch\<close>,
  which logs, clears, redirects and throws it again.
\<close>

definition fetchWithAuth ::
  "platform \<Rightarrow> string \<Rightarrow> init \<Rightarrow> world \<Rightarrow> (js_error + response) \<times> world" where
  "fetchWithAuth p url options w =
     (case fetch p url (fetchOptions options) w of
        (Inl err, w1) \<Rightarrow> (Inl err, w1)
      | (Inr resp, w1) \<Rightarrow>
          if status resp \<noteq> 401 \<or> isAuthEndpoint url then (Inr resp, w1)
          else
            (case refresh_then_retry p url (fetchOptions options) w1 of
               (Inl err, w2) \<Rightarrow>
                 (Inl err, redirect_login (clear_session p (console_error ''Token refresh failed:'' err w2)))
             | (Inr r, w2) \<Rightarrow> (Inr r, w2)))"

section \<open>authStore: hydrate\<close>

text \<open>
  The source holds the auth store twice. Both stores read the persisted state in the
  same way; they differ in what \<^verbatim>\<open>hydrate\<close> does once the identity check has
  been sent. The store wrapped in \<^verbatim>\<open>devtools\<close> refreshes and retries on 401 and
  is \<open>hydrate\<close> below; the store without it is \<open>hydrate_v1\<close>. Every
  \<^verbatim>\<open>set\<close> in them is the persisting one: the first line of \<^verbatim>\<open>hydrate\<close>,
  \<^verbatim>\<open>set({ loading: true })\<close>, has renewed \<^verbatim>\<open>localStorage["auth-store"]\<close> from
  the store by the time \<^verbatim>\<open>getItem\<close> reads it.
\<close>

definition me_url :: "platform \<Rightarrow> string" where
  "me_url p = API_BASE_URL p @ ''/api/auth/me/''"

definition me_init :: init where
  "me_init =
     \<lparr>method = Some ''GET'', body = None, credentials = Some ''include'',
      headers = Some [(''Content-Type'', ''application/json'')], extra = []\<rparr>"

text \<open>\<^verbatim>\<open>set({ user: null, isAuthenticated: false, error: null })\<close>\<close>

definition set_signed_out :: "platform \<Rightarrow> world \<Rightarrow> world" where
  "set_signed_out p w = set_auth p (\<lambda>s. s\<lparr>user := JNull, isAuthenticated := False, error := JNull\<rparr>) w"

text \<open>\<^verbatim>\<open>set({ user: null, isAuthenticated: false, error: null, loading: false })\<close>\<close>

definition set_signed_out_idle :: "platform \<Rightarrow> world \<Rightarrow> world" where
  "set_signed_out_idle p w =
     set_auth p (\<lambda>s. s\<lparr>user := JNull, isAuthenticated := False, error := JNull, loading := False\<rparr>) w"

definition set_loading :: "platform \<Rightarrow> bool \<Rightarrow> world \<Rightarrow> world" where
  "set_loading p b w = set_auth p (\<lambda>s. s\<lparr>loading := b\<rparr>) w"

text \<open>
  The start of the \<^verbatim>\<open>try\<close> block, the same in both stores: \<open>Inr None\<close> when the
  function returns without a network call, \<open>Inr (Some ())\<close> when a truthy persisted
  flag sends it on to the identity check, \<open>Inl\<close> when \<^verbatim>\<open>JSON.parse\<close> throws.
\<close>

definition read_persisted :: "platform \<Rightarrow> world \<Rightarrow> (js_error + unit option) \<times> world" where
  "read_persisted p w =
     (case map_of (localStorage w) ''auth-store'' of
        None \<Rightarrow> (Inr None, set_signed_out_idle p w)
      | Some savedState \<Rightarrow>
          if savedState = [] then (Inr None, set_signed_out_idle p w)
          else
            (case JSON_parse p savedState of
               Inl err \<Rightarrow> (Inl err, w)
             | Inr parsed \<Rightarrow>
                 if \<not> truthy (opt_get (opt_get parsed ''state'') ''isAuthenticated'')
                 then (Inr None, set_signed_out_idle p w)
                 else (Inr (Some ()), w)))"

text \<open>
  The block \<^verbatim>\<open>if (response.status === 401) { try { ... } catch (error) { ... } }\<close>
  of the second store: \<open>None\<close> when it returns from \<^verbatim>\<open>hydrate\<close>, the response to
  go on with otherwise.
\<close>

definition hydrate_refresh :: "platform \<Rightarrow> response \<Rightarrow> world \<Rightarrow> response option \<times> world" where
  "hydrate_refresh p resp w =
     (if status resp = 401 then
        (case fetch p (refresh_url p) refresh_init w of
           (Inl err, w1) \<Rightarrow> (None, set_loading p False (set_signed_out p w1))
         | (Inr refreshResponse, w1) \<Rightarrow>
             if ok refreshResponse then
               (case fetch p (me_url p) me_init w1 of
                  (Inl err, w2) \<Rightarrow> (None, set_loading p False (set_signed_out p w2))
                | (Inr r, w2) \<Rightarrow> (Some r, w2))
             else (None, set_loading p False (set_signed_out p w1)))
      else (Some resp, w))"

text \<open>The \<^verbatim>\<open>try\<close> block of the second store; \<open>Inl\<close> is a fault that reaches its \<^verbatim>\<open>catch\<close>.\<close>

definition hydrate_try :: "platform \<Rightarrow> world \<Rightarrow> (js_error + unit) \<times> world" where
  "hydrate_try p w =
     (case read_persisted p w of
        (Inl err, w0) \<Rightarrow> (Inl err, w0)
      | (Inr None, w0) \<Rightarrow> (Inr (), w0)
      | (Inr (Some u), w0) \<Rightarrow>
          (case fetch p (me_url p) me_init w0 of
             (Inl err, w1) \<Rightarrow> (Inl err, w1)
           | (Inr resp, w1) \<Rightarrow>
               (case hydrate_refresh p resp w1 of
                  (None, w2) \<Rightarrow> (Inr (), w2)
                | (Some r, w2) \<Rightarrow>
                    if ok r then
                      (case json r of
                         Inl err \<Rightarrow> (Inl err, w2)
                       | Inr u \<Rightarrow>
                           (Inr (),
                            set_auth p (\<lambda>s. s\<lparr>user := u, isAuthenticated := True, error := JNull\<rparr>) w2))
                    else (Inr (), set_signed_out p w2))))"

definition hydrate :: "platform \<Rightarrow> world \<Rightarrow> world" where
  "hydrate p w =
     (case hydrate_try p (set_loading p True w) of
        (Inl err, w1) \<Rightarrow> set_loading p False (set_signed_out p (console_error ''Hydration error:'' err w1))
      | (Inr u, w1) \<Rightarrow> set_loading p False w1)"

text \<open>The first store: no refresh, and only a 401 clears the session.\<close>

definition hydrate_v1_try :: "platform \<Rightarrow> world \<Rightarrow> (js_error + unit) \<times> world" where
  "hydrate_v1_try p w =
     (case read_persisted p w of
        (Inl err, w0) \<Rightarrow> (Inl err, w0)
      | (Inr None, w0) \<Rightarrow> (Inr (), w0)
      | (Inr (Some u), w0) \<Rightarrow>
          (case fetch p (me_url p) me_init w0 of
             (Inl err, w1) \<Rightarrow> (Inl err, w1)
           | (Inr resp, w1) \<Rightarrow>
               if ok resp then
                 (case json resp of
                    Inl err \<Rightarrow> (Inl err, w1)
                  | Inr u \<Rightarrow>
                      (Inr (),
                       set_auth p (\<lambda>s. s\<lparr>user := u, isAuthenticated := True, error := JNull\<rparr>) w1))
               else if status resp = 401 then (Inr (), set_signed_out p w1)
               else (Inr (), set_auth p (\<lambda>s. s\<lparr>error := JStr ''Failed to hydrate auth state''\<rparr>) w1)))"

definition hydrate_v1 :: "platform \<Rightarrow> world \<Rightarrow> world" where
  "hydrate_v1 p w =
     (case hydrate_v1_try p (set_loading p True w) of
        (Inl err, w1) \<Rightarrow>
          set_loading p False
            (set_auth p (\<lambda>s. s\<lparr>error := JStr (message err)\<rparr>) (console_error ''Hydration error:'' err w1))
      | (Inr u, w1) \<Rightarrow> set_loading p False w1)"

section \<open>productStore\<close>

text \<open>
  The four operations call \<^verbatim>\<open>fetch\<close> themselves. Each returns what the JavaScript
  function returns (\<open>JUndefined\<close> where it falls off the end) and the new world.
\<close>

definition products_url :: "platform \<Rightarrow> string" where
  "products_url p = API_BASE_URL p @ ''/api/products/''"

definition product_url :: "platform \<Rightarrow> jsval \<Rightarrow> string" where
  "product_url p productId = API_BASE_URL p @ ''/api/products/'' @ ToString p productId @ ''/''"

definition json_init :: "string \<Rightarrow> string option \<Rightarrow> init" where
  "json_init m b =
     \<lparr>method = Some m, body = b, credentials = Some ''include'',
      headers = Some [(''Content-Type'', ''application/json'')], extra = []\<rparr>"

definition set_store :: "(product_state \<Rightarrow> product_state) \<Rightarrow> world \<Rightarrow> world" where
  "set_store f w = w\<lparr>store := f (store w)\<rparr>"

text \<open>\<^verbatim>\<open>set({ loading: true, error: null })\<close>, the first line of each operation.\<close>

definition begin_op :: "world \<Rightarrow> world" where
  "begin_op w = set_store (\<lambda>s. s\<lparr>p_loading := True, p_error := JNull\<rparr>) w"

text \<open>
  The \<^verbatim>\<open>catch\<close> and \<^verbatim>\<open>finally\<close> the four operations share, up to the label
  of the console line.
\<close>

definition end_op :: "string \<Rightarrow> (js_error + jsval) \<times> world \<Rightarrow> jsval \<times> world" where
  "end_op label rw =
     (case rw of
        (Inl err, w) \<Rightarrow>
          (JUndefined,
           set_store (\<lambda>s. s\<lparr>p_loading := False\<rparr>)
             (set_store (\<lambda>s. s\<lparr>p_error := JStr (message err)\<rparr>) (console_error label err w)))
      | (Inr v, w) \<Rightarrow> (v, set_store (\<lambda>s. s\<lparr>p_loading := False\<rparr>) w))"

text \<open>\<^verbatim>\<open>data.detail || fallback\<close>, after \<^verbatim>\<open>const data = await response.json()\<close>.\<close>

definition detail_or :: "response \<Rightarrow> string \<Rightarrow> js_error + jsval" where
  "detail_or resp fallback =
     (case json resp of
        Inl err \<Rightarrow> Inl err
      | Inr data \<Rightarrow>
          (case get_prop data ''detail'' of
             Inl err \<Rightarrow> Inl err
           | Inr d \<Rightarrow> Inr (if truthy d then d else JStr fallback)))"

definition fetchProducts_try :: "platform \<Rightarrow> world \<Rightarrow> (js_error + jsval) \<times> world" where
  "fetchProducts_try p w =
     (case fetch p (products_url p) (json_init ''GET'' None) w of
        (Inl err, w1) \<Rightarrow> (Inl err, w1)
      | (Inr resp, w1) \<Rightarrow>
          if ok resp then
            (case json resp of
               Inl err \<Rightarrow> (Inl err, w1)
             | Inr ps \<Rightarrow> (Inr JUndefined, set_store (\<lambda>s. s\<lparr>products := ps, p_error := JNull\<rparr>) w1))
          else if status resp = 401 then
            (Inr JUndefined, set_store (\<lambda>s. s\<lparr>products := JArr [], p_error := JStr ''Unauthorized''\<rparr>) w1)
          else (Inr JUndefined, set_store (\<lambda>s. s\<lparr>p_error := JStr ''Failed to fetch products''\<rparr>) w1))"

definition fetchProducts :: "platform \<Rightarrow> world \<Rightarrow> jsval \<times> world" where
  "fetchProducts p w = end_op ''Fetch products error:'' (fetchProducts_try p (begin_op w))"

text \<open>
  \<^verbatim>\<open>[newProduct, ...products]\<close>: an array spreads its elements, a string its
  characters, and no other value is iterable.
\<close>

fun spread_iterable :: "jsval \<Rightarrow> js_error + jsval list" where
  "spread_iterable (JArr xs) = Inr xs"
| "spread_iterable (JStr s) = Inr (map (\<lambda>c. JStr [c]) s)"
| "spread_iterable v = Inl (TypeError ''products is not iterable'')"

definition createProduct_try :: "platform \<Rightarrow> jsval \<Rightarrow> world \<Rightarrow> (js_error + jsval) \<times> world" where
  "createProduct_try p productData w =
     (case fetch p (products_url p) (json_init ''POST'' (JSON_stringify p productData)) w of
        (Inl err, w1) \<Rightarrow> (Inl err, w1)
      | (Inr resp, w1) \<Rightarrow>
          if ok resp then
            (case json resp of
               Inl err \<Rightarrow> (Inl err, w1)
             | Inr newProduct \<Rightarrow>
                 (case spread_iterable (products (store w1)) of
                    Inl err \<Rightarrow> (Inl err, w1)
                  | Inr ps \<Rightarrow>
                      (Inr newProduct,
                       set_store (\<lambda>s. s\<lparr>products := JArr (newProduct # ps), p_error := JNull\<rparr>) w1)))
          else if status resp = 401 then
            (Inr JUndefined, set_store (\<lambda>s. s\<lparr>p_error := JStr ''Unauthorized''\<rparr>) w1)
          else
            (case detail_or resp ''Failed to create product'' of
               Inl err \<Rightarrow> (Inl err, w1)
             | Inr e \<Rightarrow> (Inr JUndefined, set_store (\<lambda>s. s\<lparr>p_error := e\<rparr>) w1)))"

definition createProduct :: "platform \<Rightarrow> jsval \<Rightarrow> world \<Rightarrow> jsval \<times> world" where
  "createProduct p productData w =
     end_op ''Create product error:'' (createProduct_try p productData (begin_op w))"

text \<open>
  \<^verbatim>\<open>a === b\<close>. Primitives compare by value. Arrays and objects compare by
  reference: an identifier read out of a parsed product and the caller's argument are
  two objects, so the comparison is false.
\<close>

fun strict_eq :: "jsval \<Rightarrow> jsval \<Rightarrow> bool" where
  "strict_eq (JArr xs) b = False"
| "strict_eq (JObj kvs) b = False"
| "strict_eq a b = (a = b)"

text \<open>
  \<^verbatim>\<open>products.map((p) => p.id === productId ? updatedProduct : p)\<close> and
  \<^verbatim>\<open>products.filter((p) => p.id !== productId)\<close> on the elements of an array;
  reading \<^verbatim>\<open>p.id\<close> throws on a null element, and the first throw ends the walk.
\<close>

fun map_replace :: "jsval \<Rightarrow> jsval \<Rightarrow> jsval list \<Rightarrow> js_error + jsval list" where
  "map_replace productId updatedProduct [] = Inr []"
| "map_replace productId updatedProduct (x # xs) =
     (case get_prop x ''id'' of
        Inl err \<Rightarrow> Inl err
      | Inr i \<Rightarrow>
          (case map_replace productId updatedProduct xs of
             Inl err \<Rightarrow> Inl err
           | Inr ys \<Rightarrow> Inr ((if strict_eq i productId then updatedProduct else x) # ys)))"

fun filter_out :: "jsval \<Rightarrow> jsval list \<Rightarrow> js_error + jsval list" where
  "filter_out productId [] = Inr []"
| "filter_out productId (x # xs) =
     (case get_prop x ''id'' of
        Inl err \<Rightarrow> Inl err
      | Inr i \<Rightarrow>
          (case filter_out productId xs of
             Inl err \<Rightarrow> Inl err
           | Inr ys \<Rightarrow> Inr (if strict_eq i productId then ys else x # ys)))"

text \<open>The receiver of \<^verbatim>\<open>.map\<close> and \<^verbatim>\<open>.filter\<close>: only an array has the method.\<close>

fun array_of :: "string \<Rightarrow> jsval \<Rightarrow> js_error + jsval list" where
  "array_of m (JArr xs) = Inr xs"
| "array_of m v = Inl (TypeError (''get(...).products.'' @ m @ '' is not a function''))"

definition updateProduct_try ::
  "platform \<Rightarrow> jsval \<Rightarrow> jsval \<Rightarrow> world \<Rightarrow> (js_error + jsval) \<times> world" where
  "updateProduct_try p productId productData w =
     (case fetch p (product_url p productId) (json_init ''PUT'' (JSON_stringify p productData)) w of
        (Inl err, w1) \<Rightarrow> (Inl err, w1)
      | (Inr resp, w1) \<Rightarrow>
          if ok resp then
            (case json resp of
               Inl err \<Rightarrow> (Inl err, w1)
             | Inr updatedProduct \<Rightarrow>
                 (case array_of ''map'' (products (store w1)) of
                    Inl err \<Rightarrow> (Inl err, w1)
                  | Inr xs \<Rightarrow>
                      (case map_replace productId updatedProduct xs of
                         Inl err \<Rightarrow> (Inl err, w1)
                       | Inr ys \<Rightarrow>
                           (Inr updatedProduct,
                            set_store (\<lambda>s. s\<lparr>products := JArr ys, p_error := JNull\<rparr>) w1))))
          else if status resp = 401 then
            (Inr JUndefined, set_store (\<lambda>s. s\<lparr>p_error := JStr ''Unauthorized''\<rparr>) w1)
          else if status resp = 403 then
            (Inr JUndefined,
             set_store (\<lambda>s. s\<lparr>p_error := JStr ''You can only update your own products''\<rparr>) w1)
          else
            (case detail_or resp ''Failed to update product'' of
               Inl err \<Rightarrow> (Inl err, w1)
             | Inr e \<Rightarrow> (Inr JUndefined, set_store (\<lambda>s. s\<lparr>p_error := e\<rparr>) w1)))"

definition updateProduct :: "platform \<Rightarrow> jsval \<Rightarrow> jsval \<Rightarrow> world \<Rightarrow> jsval \<times> world" where
  "updateProduct p productId productData w =
     end_op ''Update product error:'' (updateProduct_try p productId productData (begin_op w))"

definition deleteProduct_try :: "platform \<Rightarrow> jsval \<Rightarrow> world \<Rightarrow> (js_error + jsval) \<times> world" where
  "deleteProduct_try p productId w =
     (case fetch p (product_url p productId) (json_init ''DELETE'' None) w of
        (Inl err, w1) \<Rightarrow> (Inl err, w1)
      | (Inr resp, w1) \<Rightarrow>
          if ok resp then
            (case array_of ''filter'' (products (store w1)) of
               Inl err \<Rightarrow> (Inl err, w1)
             | Inr xs \<Rightarrow>
                 (case filter_out productId xs of
                    Inl err \<Rightarrow> (Inl err, w1)
                  | Inr ys \<Rightarrow>
                      (Inr (JBool True),
                       set_store (\<lambda>s. s\<lparr>products := JArr ys, p_error := JNull\<rparr>) w1)))
          else if status resp = 401 then
            (Inr JUndefined, set_store (\<lambda>s. s\<lparr>p_error := JStr ''Unauthorized''\<rparr>) w1)
          else if status resp = 403 then
            (Inr JUndefined,
             set_store (\<lambda>s. s\<lparr>p_error := JStr ''You can only delete your own products''\<rparr>) w1)
          else
            (case detail_or resp ''Failed to delete product'' of
               Inl err \<Rightarrow> (Inl err, w1)
             | Inr e \<Rightarrow> (Inr JUndefined, set_store (\<lambda>s. s\<lparr>p_error := e\<rparr>) w1)))"

definition deleteProduct :: "platform \<Rightarrow> jsval \<Rightarrow> world \<Rightarrow> jsval \<times> world" where
  "deleteProduct p productId w =
     end_op ''Delete product error:'' (deleteProduct_try p productId (begin_op w))"

section \<open>Names for the requests and concrete inputs\<close>

text \<open>
  The request \<^verbatim>\<open>fetchWithAuth\<close> sends for the caller, and the refresh call.
\<close>

abbreviation orig_request :: "string \<Rightarrow> init \<Rightarrow> request" where
  "orig_request url options \<equiv> \<lparr>target = url, init = fetchOptions options\<rparr>"

abbreviation refresh_request :: "platform \<Rightarrow> request" where
  "refresh_request p \<equiv> \<lparr>target = refresh_url p, init = refresh_init\<rparr>"

text \<open>
  Inputs for evaluating the functions: a transport that answers the n-th request of a
  session with the n-th entry of a script, a \<^verbatim>\<open>JSON.parse\<close> and
  \<^verbatim>\<open>JSON.stringify\<close> that know the persisted copy of a signed-in and of a
  signed-out store, a caller's options that ask for other credentials, a signed-in world,
  and a world as it is when the application starts signed out.
\<close>

definition scripted :: "(js_error + response) list \<Rightarrow> request list \<Rightarrow> request \<Rightarrow> js_error + response" where
  "scripted answers history rq =
     (if length history < length answers then answers ! length history
      else Inl (NetworkError ''Failed to fetch''))"

definition reply :: "nat \<Rightarrow> response" where
  "reply n = \<lparr>status = n, json = Inr (JObj [(''id'', JNum 1), (''email'', JStr ''a@b.c'')])\<rparr>"

definition demo_saved :: string where
  \<open>demo_saved = ''{"state":{"user":{"id":1},"isAuthenticated":true},"version":0}''\<close>

definition demo_saved_out :: string where
  \<open>demo_saved_out = ''{"state":{"user":null,"isAuthenticated":false},"version":0}''\<close>

definition demo_in :: jsval where
  "demo_in =
     JObj [(''state'', JObj [(''user'', JObj [(''id'', JNum 1)]), (''isAuthenticated'', JBool True)]),
           (''version'', JNum 0)]"

definition demo_out :: jsval where
  "demo_out =
     JObj [(''state'', JObj [(''user'', JNull), (''isAuthenticated'', JBool False)]),
           (''version'', JNum 0)]"

definition demo_parse :: "string \<Rightarrow> js_error + jsval" where
  "demo_parse s =
     (if s = demo_saved then Inr demo_in
      else if s = demo_saved_out then Inr demo_out
      else Inl (SyntaxError ''Unexpected token''))"

definition demo_stringify :: "jsval \<Rightarrow> string option" where
  "demo_stringify v =
     (if v = demo_in then Some demo_saved
      else if v = demo_out then Some demo_saved_out
      else Some ''{}'')"

definition demo_platform :: "(js_error + response) list \<Rightarrow> platform" where
  "demo_platform answers =
     \<lparr>transport = scripted answers, JSON_parse = demo_parse,
      JSON_stringify = demo_stringify, ToString = (\<lambda>v. ''7''),
      NEXT_PUBLIC_API_URL = None\<rparr>"

definition demo_options :: init where
  "demo_options =
     \<lparr>method = Some ''PUT'', body = Some ''{}'', credentials = Some ''omit'',
      headers = Some [(''X-Trace'', ''1'')], extra = []\<rparr>"

definition demo_world :: "string option \<Rightarrow> world" where
  "demo_world href =
     \<lparr>auth = \<lparr>user = JObj [(''id'', JNum 1)], isAuthenticated = True, loading = False, error = JNull\<rparr>,
      store = \<lparr>products = JArr [JObj [(''id'', JNum 7)]], p_loading = False, p_error = JNull\<rparr>,
      localStorage = [(''auth-store'', demo_saved)],
      window = href, requests = [], console = []\<rparr>"

definition startup_world :: "(string \<times> string) list \<Rightarrow> world" where
  "startup_world storage =
     \<lparr>auth = \<lparr>user = JNull, isAuthenticated = False, loading = False, error = JNull\<rparr>,
      store = \<lparr>products = JArr [], p_loading = False, p_error = JNull\<rparr>,
      localStorage = storage,
      window = Some ''/'', requests = [], console = []\<rparr>"

section \<open>Properties of fetchWithAuth\<close>

lemma starts_with_append: "starts_with (p @ b) p"
  by (induction p) simp_all

lemma includes_str_append: "includes_str (a @ p @ b) p"
proof (induction a)
  case Nil
  show ?case by (cases "p @ b") (use starts_with_append[of p b] in \<open>auto\<close>)
next
  case (Cons c a)
  then show ?case by simp
qed

lemma isAuthEndpoint_refresh_url: "isAuthEndpoint (refresh_url p)"
proof -
  have "includes_str ((API_BASE_URL p @ ''/api'') @ ''/auth/refresh/'' @ []) ''/auth/refresh/''"
    by (rule includes_str_append)
  then show ?thesis by (simp add: isAuthEndpoint_def refresh_url_def)
qed

lemma not_auth_not_refresh: "\<not> isAuthEndpoint url \<Longrightarrow> url \<noteq> refresh_url p"
  using isAuthEndpoint_refresh_url by auto

lemma redirect_login_fields [simp]:
  "requests (redirect_login w) = requests w"
  "auth (redirect_login w) = auth w"
  "store (redirect_login w) = store w"
  "localStorage (redirect_login w) = localStorage w"
  "console (redirect_login w) = console w"
  "window (redirect_login w) = (case window w of None \<Rightarrow> None | Some href \<Rightarrow> Some ''/login'')"
  by (simp_all add: redirect_login_def split: option.splits)

lemma map_of_setItem: "map_of (setItem k v kvs) = (map_of kvs)(k \<mapsto> v)"
  by (induction kvs) (auto simp: fun_eq_iff)

lemma persist_string_loading [simp]: "persist_string p (s\<lparr>loading := b\<rparr>) = persist_string p s"
  by (simp add: persist_string_def persisted_def partialize_def)

lemmas exec_defs = fetchWithAuth_def refresh_then_retry_def fetch_def issued_def console_error_def
  clear_session_def set_auth_def

lemmas demo_defs = demo_platform_def scripted_def reply_def demo_options_def demo_world_def
  fetchOptions_def refresh_init_def refresh_url_def API_BASE_URL_def ok_def isAuthEndpoint_def
  clearAuth_def persist_string_def persisted_def partialize_def demo_stringify_def demo_parse_def
  demo_in_def demo_out_def demo_saved_def demo_saved_out_def startup_world_def

text \<open>
  Claim C3. When the first response is not a 401, or the URL is a login, refresh or
  logout endpoint, \<open>fetchWithAuth\<close> returns that response as it came, has sent the one
  request and nothing else (no refresh, no retry), and leaves the session and the rest of
  the world as they were. The second disjunct covers a 401 from an auth endpoint.
\<close>

theorem fetchWithAuth_passthrough:
  assumes "transport p (requests w) (orig_request url options) = Inr r"
    and "status r \<noteq> 401 \<or> isAuthEndpoint url"
  shows "fetchWithAuth p url options w =
           (Inr r, w\<lparr>requests := requests w @ [orig_request url options]\<rparr>)
         \<and> issued w (snd (fetchWithAuth p url options w)) = [orig_request url options]
         \<and> auth (snd (fetchWithAuth p url options w)) = auth w"
  using assms by (auto simp: exec_defs)

text \<open>A 401 from the login endpoint, and a 500 from a protected endpoint.\<close>

theorem fetchWithAuth_passthrough_witness:
  "fetchWithAuth (demo_platform [Inr (reply 401)]) ''http://localhost:8000/api/auth/login/'' demo_options
       (demo_world (Some ''/login'')) =
     (Inr (reply 401),
      (demo_world (Some ''/login''))
        \<lparr>requests := [orig_request ''http://localhost:8000/api/auth/login/'' demo_options]\<rparr>)
   \<and> fst (fetchWithAuth (demo_platform [Inr (reply 500)]) ''/api/products/'' demo_options
       (demo_world (Some ''/dashboard''))) = Inr (reply 500)"
  using fetchWithAuth_passthrough [of "demo_platform [Inr (reply 401)]" "demo_world (Some ''/login'')"
      "''http://localhost:8000/api/auth/login/''" demo_options "reply 401"]
    fetchWithAuth_passthrough [of "demo_platform [Inr (reply 500)]" "demo_world (Some ''/dashboard'')"
      "''/api/products/''" demo_options "reply 500"]
  by (simp add: demo_defs)

text \<open>
  Claim C1. For a URL that is not an auth endpoint, a first response with status 401 and
  a refresh response with a success status: the requests sent are the original one, the
  refresh call and the original one again, the same request value both times (so the
  same method, body and headers); two of them go to the original URL and one to the
  refresh endpoint; the call ends with the transport's answer to the third request, and
  when that answer is a response it is returned whatever its status, with nothing in the
  world changed but the list of requests.
\<close>

theorem fetchWithAuth_refresh_retry:
  assumes "\<not> isAuthEndpoint url"
    and "transport p (requests w) (orig_request url options) = Inr r1"
    and "status r1 = 401"
    and "transport p (requests w @ [orig_request url options]) (refresh_request p) = Inr rr"
    and "ok rr"
  shows "issued w (snd (fetchWithAuth p url options w)) =
           [orig_request url options, refresh_request p, orig_request url options]
         \<and> length (filter (\<lambda>q. target q = url) (issued w (snd (fetchWithAuth p url options w)))) = 2
         \<and> length (filter (\<lambda>q. target q = refresh_url p) (issued w (snd (fetchWithAuth p url options w)))) = 1
         \<and> fst (fetchWithAuth p url options w) =
             transport p (requests w @ [orig_request url options, refresh_request p]) (orig_request url options)
         \<and> (\<forall>r2. transport p (requests w @ [orig_request url options, refresh_request p])
                    (orig_request url options) = Inr r2 \<longrightarrow>
                fetchWithAuth p url options w =
                  (Inr r2, w\<lparr>requests := requests w @
                     [orig_request url options, refresh_request p, orig_request url options]\<rparr>))"
  using assms not_auth_not_refresh[of url p]
  by (auto simp: exec_defs split: sum.splits)


text \<open>The retry is answered 503 and that response is the result.\<close>

theorem fetchWithAuth_refresh_retry_witness:
  "fetchWithAuth (demo_platform [Inr (reply 401), Inr (reply 200), Inr (reply 503)])
       ''/api/products/'' demo_options (demo_world (Some ''/dashboard'')) =
     (Inr (reply 503),
      (demo_world (Some ''/dashboard''))
        \<lparr>requests := [orig_request ''/api/products/'' demo_options,
                      refresh_request (demo_platform []),
                      orig_request ''/api/products/'' demo_options]\<rparr>)"
  using fetchWithAuth_refresh_retry [of "''/api/products/''"
      "demo_platform [Inr (reply 401), Inr (reply 200), Inr (reply 503)]"
      "demo_world (Some ''/dashboard'')" demo_options "reply 401" "reply 200"]
  by (simp add: demo_defs)

text \<open>
  Claim C2. For a URL that is not an auth endpoint and a first response with status 401:
  when the refresh call is answered with a status outside 200 to 299, that refresh
  response is returned, one request went to the original URL and one to the refresh
  endpoint, and the session is cleared (\<open>isAuthenticated\<close> false, \<open>user\<close> null); when
  the refresh call throws, the same two requests were sent, the session is cleared and
  the fault is thrown on to the caller.
\<close>

theorem fetchWithAuth_refresh_fails:
  assumes "\<not> isAuthEndpoint url"
    and "transport p (requests w) (orig_request url options) = Inr r1"
    and "status r1 = 401"
  shows "(\<forall>rr. transport p (requests w @ [orig_request url options]) (refresh_request p) = Inr rr
                \<and> \<not> ok rr \<longrightarrow>
            fst (fetchWithAuth p url options w) = Inr rr
            \<and> issued w (snd (fetchWithAuth p url options w)) = [orig_request url options, refresh_request p]
            \<and> auth (snd (fetchWithAuth p url options w)) = clearAuth (auth w)
            \<and> \<not> isAuthenticated (auth (snd (fetchWithAuth p url options w)))
            \<and> user (auth (snd (fetchWithAuth p url options w))) = JNull)
         \<and> (\<forall>e. transport p (requests w @ [orig_request url options]) (refresh_request p) = Inl e
                \<longrightarrow>
            fst (fetchWithAuth p url options w) = Inl e
            \<and> issued w (snd (fetchWithAuth p url options w)) = [orig_request url options, refresh_request p]
            \<and> auth (snd (fetchWithAuth p url options w)) = clearAuth (auth w)
            \<and> \<not> isAuthenticated (auth (snd (fetchWithAuth p url options w)))
            \<and> user (auth (snd (fetchWithAuth p url options w))) = JNull)"
  using assms by (auto simp: exec_defs clearAuth_def)

text \<open>A refresh answered 401, and a refresh that fails on the network.\<close>

theorem fetchWithAuth_refresh_fails_witness:
  "fst (fetchWithAuth (demo_platform [Inr (reply 401), Inr (reply 401)])
         ''/api/products/'' demo_options (demo_world (Some ''/dashboard''))) = Inr (reply 401)
   \<and> \<not> isAuthenticated (auth (snd (fetchWithAuth (demo_platform [Inr (reply 401), Inr (reply 401)])
         ''/api/products/'' demo_options (demo_world (Some ''/dashboard'')))))
   \<and> fst (fetchWithAuth (demo_platform [Inr (reply 401), Inl (NetworkError ''offline'')])
         ''/api/products/'' demo_options (demo_world (Some ''/dashboard''))) = Inl (NetworkError ''offline'')
   \<and> user (auth (snd (fetchWithAuth (demo_platform [Inr (reply 401), Inl (NetworkError ''offline'')])
         ''/api/products/'' demo_options (demo_world (Some ''/dashboard''))))) = JNull"
  using fetchWithAuth_refresh_fails [of "''/api/products/''"
      "demo_platform [Inr (reply 401), Inr (reply 401)]"
      "demo_world (Some ''/dashboard'')" demo_options "reply 401"]
    fetchWithAuth_refresh_fails [of "''/api/products/''"
      "demo_platform [Inr (reply 401), Inl (NetworkError ''offline'')]"
      "demo_world (Some ''/dashboard'')" demo_options "reply 401"]
  by (simp add: demo_defs)

lemma fetchWithAuth_issued_cases:
  "issued w (snd (fetchWithAuth p url options w)) = [orig_request url options]
   \<or> (\<not> isAuthEndpoint url \<and>
       (issued w (snd (fetchWithAuth p url options w)) = [orig_request url options, refresh_request p]
        \<or> issued w (snd (fetchWithAuth p url options w)) =
            [orig_request url options, refresh_request p, orig_request url options]))"
  by (auto simp: exec_defs split: sum.splits)

text \<open>
  Claim C4. Whatever the transport answers, a call sends one, two or three requests: the
  original, then at most one refresh call, then at most one retry of the original. The
  function is a composition of at most three transport calls without recursion, so it
  yields a result for every transport.
\<close>

theorem fetchWithAuth_bounded:
  "length (issued w (snd (fetchWithAuth p url options w))) \<le> 3
   \<and> length (filter (\<lambda>q. target q = refresh_url p) (issued w (snd (fetchWithAuth p url options w)))) \<le> 1
   \<and> length (filter (\<lambda>q. target q = url) (issued w (snd (fetchWithAuth p url options w)))) \<le> 2
   \<and> issued w (snd (fetchWithAuth p url options w)) \<in>
        {[orig_request url options],
         [orig_request url options, refresh_request p],
         [orig_request url options, refresh_request p, orig_request url options]}
   \<and> requests (snd (fetchWithAuth p url options w)) =
        requests w @ issued w (snd (fetchWithAuth p url options w))"
proof -
  have pre: "requests (snd (fetchWithAuth p url options w)) =
        requests w @ issued w (snd (fetchWithAuth p url options w))"
    by (auto simp: exec_defs split: sum.splits)
  from fetchWithAuth_issued_cases[of w p url options] not_auth_not_refresh[of url p] pre
  show ?thesis by auto
qed

text \<open>The longest run: 401, refresh accepted, 401 again, and the call stops there.\<close>

theorem fetchWithAuth_bounded_witness:
  "length (issued (demo_world None)
       (snd (fetchWithAuth (demo_platform [Inr (reply 401), Inr (reply 200), Inr (reply 401)])
          ''/api/products/'' demo_options (demo_world None)))) = 3
   \<and> length (filter (\<lambda>q. target q = ''http://localhost:8000/api/auth/refresh/'')
       (issued (demo_world None)
         (snd (fetchWithAuth (demo_platform [Inr (reply 401), Inr (reply 200), Inr (reply 401)])
            ''/api/products/'' demo_options (demo_world None))))) \<le> 1"
  using fetchWithAuth_bounded [of "demo_world None"
      "demo_platform [Inr (reply 401), Inr (reply 200), Inr (reply 401)]" "''/api/products/''" demo_options]
  by (simp add: demo_defs exec_defs)

text \<open>
  Claim C7 says that \<open>fetchWithAuth\<close> never navigates to the login view itself. In a
  browser it does: after a 401 and a rejected refresh, the location it leaves behind is
  \<^verbatim>\<open>/login\<close>.
\<close>

theorem fetchWithAuth_navigates_counterexample:
  "window (demo_world (Some ''/dashboard'')) = Some ''/dashboard''
   \<and> window (snd (fetchWithAuth (demo_platform [Inr (reply 401), Inr (reply 401)])
        ''/api/products/'' demo_options (demo_world (Some ''/dashboard'')))) = Some ''/login''"
  by (simp add: demo_defs exec_defs)

text \<open>
  Claim C7, amended. \<open>fetchWithAuth\<close> performs the navigation itself, on the paths on
  which it clears the session and on no other: when the call ended after two requests
  (the refresh was rejected or threw) or after three requests with a fault (the retry
  threw), the location is what the guarded assignment of \<^verbatim>\<open>/login\<close> makes of it and
  the session is cleared, the store's \<^verbatim>\<open>set\<close> renewing its persisted copy;
  otherwise location, session and persisted copy are untouched. The product store is
  never touched; the remaining effects are the requests and a console line.
\<close>

theorem fetchWithAuth_effects:
  "store (snd (fetchWithAuth p url options w)) = store w
   \<and> window (snd (fetchWithAuth p url options w)) =
       (if length (issued w (snd (fetchWithAuth p url options w))) = 2
           \<or> (length (issued w (snd (fetchWithAuth p url options w))) = 3
               \<and> isl (fst (fetchWithAuth p url options w)))
        then window (redirect_login w) else window w)
   \<and> auth (snd (fetchWithAuth p url options w)) =
       (if length (issued w (snd (fetchWithAuth p url options w))) = 2
           \<or> (length (issued w (snd (fetchWithAuth p url options w))) = 3
               \<and> isl (fst (fetchWithAuth p url options w)))
        then clearAuth (auth w) else auth w)
   \<and> localStorage (snd (fetchWithAuth p url options w)) =
       (if length (issued w (snd (fetchWithAuth p url options w))) = 2
           \<or> (length (issued w (snd (fetchWithAuth p url options w))) = 3
               \<and> isl (fst (fetchWithAuth p url options w)))
        then setItem ''auth-store'' (persist_string p (clearAuth (auth w))) (localStorage w)
        else localStorage w)
   \<and> (console (snd (fetchWithAuth p url options w)) = console w
        \<or> (\<exists>e. fst (fetchWithAuth p url options w) = Inl e
              \<and> console (snd (fetchWithAuth p url options w)) =
                  console w @ [(''Token refresh failed:'', e)]))"
  by (auto simp: exec_defs split: sum.splits)

text \<open>A retry that throws navigates; a retry that is answered does not.\<close>

theorem fetchWithAuth_effects_witness:
  "store (snd (fetchWithAuth (demo_platform [Inr (reply 401), Inr (reply 200), Inl (NetworkError ''offline'')])
        ''/api/products/'' demo_options (demo_world (Some ''/dashboard'')))) = store (demo_world (Some ''/dashboard''))
   \<and> window (snd (fetchWithAuth (demo_platform [Inr (reply 401), Inr (reply 200), Inl (NetworkError ''offline'')])
        ''/api/products/'' demo_options (demo_world (Some ''/dashboard'')))) = Some ''/login''
   \<and> window (snd (fetchWithAuth (demo_platform [Inr (reply 401), Inr (reply 200), Inr (reply 200)])
        ''/api/products/'' demo_options (demo_world (Some ''/dashboard'')))) = Some ''/dashboard''"
  using fetchWithAuth_effects [of "demo_platform [Inr (reply 401), Inr (reply 200), Inl (NetworkError ''offline'')]"
      "''/api/products/''" demo_options "demo_world (Some ''/dashboard'')"]
    fetchWithAuth_effects [of "demo_platform [Inr (reply 401), Inr (reply 200), Inr (reply 200)]"
      "''/api/products/''" demo_options "demo_world (Some ''/dashboard'')"]
  by (simp add: demo_defs exec_defs)

lemma map_of_set_key: "map_of (set_key k v a) = (map_of a)(k \<mapsto> v)"
  by (induction a) (auto simp: fun_eq_iff)

lemma map_of_spread: "map_of (spread a b) = map_of a ++ map_of (rev b)"
proof (induction b arbitrary: a)
  case Nil
  show ?case by simp
next
  case (Cons kv b)
  obtain k v where kv: "kv = (k, v)" by (cases kv)
  show ?case
    unfolding kv by (simp add: Cons.IH map_of_set_key map_add_def fun_eq_iff split: option.splits)
qed

text \<open>
  Claim C8. Every request a call sends, the first attempt, the refresh call or the retry,
  has \<open>credentials\<close> set to \<^verbatim>\<open>include\<close>, whatever the caller's options say. The
  executor puts no credential into a body or a header: the caller's method, body and
  other fields travel unchanged, the only header it writes is \<^verbatim>\<open>Content-Type\<close>
  (every other header is the caller's, the last binding of a key winning), and the
  refresh call has no body and that one header.
\<close>

theorem fetchWithAuth_credentials:
  "(\<forall>q \<in> set (issued w (snd (fetchWithAuth p url options w))).
        credentials (init q) = Some ''include''
        \<and> (q = orig_request url options \<or> q = refresh_request p))
   \<and> method (fetchOptions options) = method options
   \<and> body (fetchOptions options) = body options
   \<and> extra (fetchOptions options) = extra options
   \<and> (\<forall>k. k \<noteq> ''Content-Type'' \<longrightarrow>
         map_of (the (headers (fetchOptions options))) k =
         map_of (rev (case headers options of None \<Rightarrow> [] | Some hs \<Rightarrow> hs)) k)
   \<and> body refresh_init = None
   \<and> headers refresh_init = Some [(''Content-Type'', ''application/json'')]"
proof -
  have "\<forall>q \<in> set (issued w (snd (fetchWithAuth p url options w))).
        credentials (init q) = Some ''include''
        \<and> (q = orig_request url options \<or> q = refresh_request p)"
    using fetchWithAuth_issued_cases[of w p url options]
    by (auto simp: fetchOptions_def refresh_init_def)
  moreover have "\<forall>k. k \<noteq> ''Content-Type'' \<longrightarrow>
         map_of (the (headers (fetchOptions options))) k =
         map_of (rev (case headers options of None \<Rightarrow> [] | Some hs \<Rightarrow> hs)) k"
    by (simp add: fetchOptions_def map_of_spread map_add_def split: option.splits)
  ultimately show ?thesis
    by (simp add: fetchOptions_def refresh_init_def)
qed

text \<open>The caller asks for \<^verbatim>\<open>omit\<close>; all three requests carry \<^verbatim>\<open>include\<close>.\<close>

theorem fetchWithAuth_credentials_witness:
  "credentials demo_options = Some ''omit''
   \<and> map (\<lambda>q. credentials (init q))
       (issued (demo_world None)
         (snd (fetchWithAuth (demo_platform [Inr (reply 401), Inr (reply 200), Inr (reply 200)])
            ''/api/products/'' demo_options (demo_world None)))) =
     [Some ''include'', Some ''include'', Some ''include'']"
  using fetchWithAuth_credentials [of "demo_world None"
      "demo_platform [Inr (reply 401), Inr (reply 200), Inr (reply 200)]" "''/api/products/''" demo_options]
  by (simp add: demo_defs exec_defs)

text \<open>
  Claim C9 says that a fault of the retried request always leads to a navigation to
  \<^verbatim>\<open>/login\<close>. The assignment is guarded by \<^verbatim>\<open>typeof window !== "undefined"\<close>:
  where there is no window the fault is thrown on and no navigation happens.
\<close>

theorem fetchWithAuth_retry_fault_counterexample:
  "fst (fetchWithAuth (demo_platform [Inr (reply 401), Inr (reply 200), Inl (NetworkError ''offline'')])
        ''/api/products/'' demo_options (demo_world None)) = Inl (NetworkError ''offline'')
   \<and> window (snd (fetchWithAuth (demo_platform [Inr (reply 401), Inr (reply 200), Inl (NetworkError ''offline'')])
        ''/api/products/'' demo_options (demo_world None))) \<noteq> Some ''/login''"
  by (simp add: demo_defs exec_defs)

text \<open>
  Claim C9, amended. When the refresh succeeds and the retried request throws, the fault
  goes through the same \<^verbatim>\<open>catch\<close> as a fault of the refresh call: the console line
  is written, the session is cleared, the location becomes \<^verbatim>\<open>/login\<close> where a
  window exists (and nothing is navigated where none does), and the fault is thrown
  again; no response is returned.
\<close>

theorem fetchWithAuth_retry_fault:
  assumes "\<not> isAuthEndpoint url"
    and "transport p (requests w) (orig_request url options) = Inr r1"
    and "status r1 = 401"
    and "transport p (requests w @ [orig_request url options]) (refresh_request p) = Inr rr"
    and "ok rr"
    and "transport p (requests w @ [orig_request url options, refresh_request p])
           (orig_request url options) = Inl e"
  shows "fst (fetchWithAuth p url options w) = Inl e
         \<and> auth (snd (fetchWithAuth p url options w)) = clearAuth (auth w)
         \<and> \<not> isAuthenticated (auth (snd (fetchWithAuth p url options w)))
         \<and> user (auth (snd (fetchWithAuth p url options w))) = JNull
         \<and> window (snd (fetchWithAuth p url options w)) =
             (case window w of None \<Rightarrow> None | Some href \<Rightarrow> Some ''/login'')
         \<and> console (snd (fetchWithAuth p url options w)) = console w @ [(''Token refresh failed:'', e)]
         \<and> issued w (snd (fetchWithAuth p url options w)) =
             [orig_request url options, refresh_request p, orig_request url options]"
  using assms by (simp add: exec_defs clearAuth_def)

text \<open>
  In a browser on \<^verbatim>\<open>/dashboard\<close>, the retry fails on the network; the persisted copy
  is the signed-out one afterwards.
\<close>

theorem fetchWithAuth_retry_fault_witness:
  "fetchWithAuth (demo_platform [Inr (reply 401), Inr (reply 200), Inl (NetworkError ''offline'')])
        ''/api/products/'' demo_options (demo_world (Some ''/dashboard'')) =
     (Inl (NetworkError ''offline''),
      (demo_world (Some ''/dashboard''))
        \<lparr>auth := \<lparr>user = JNull, isAuthenticated = False, loading = False, error = JNull\<rparr>,
         localStorage := [(''auth-store'', demo_saved_out)],
         window := Some ''/login'',
         requests := [orig_request ''/api/products/'' demo_options, refresh_request (demo_platform []),
                      orig_request ''/api/products/'' demo_options],
         console := [(''Token refresh failed:'', NetworkError ''offline'')]\<rparr>)"
  using fetchWithAuth_retry_fault [of "''/api/products/''"
      "demo_platform [Inr (reply 401), Inr (reply 200), Inl (NetworkError ''offline'')]"
      "demo_world (Some ''/dashboard'')" demo_options "reply 401" "reply 200" "NetworkError ''offline''"]
  by (simp add: demo_defs exec_defs)

section \<open>Properties of hydrate\<close>

lemmas hydrate_defs = hydrate_def hydrate_try_def hydrate_v1_def hydrate_v1_try_def read_persisted_def
  hydrate_refresh_def set_signed_out_def set_signed_out_idle_def set_loading_def set_auth_def
  fetch_def issued_def console_error_def

lemma read_persisted_without_flag:
  assumes "map_of (localStorage w) ''auth-store'' = Some s"
    and "s \<noteq> [] \<longrightarrow> (\<exists>parsed. JSON_parse p s = Inr parsed
           \<and> \<not> truthy (opt_get (opt_get parsed ''state'') ''isAuthenticated''))"
  shows "read_persisted p w = (Inr None, set_signed_out_idle p w)"
  using assms unfolding read_persisted_def by auto

lemma set_loading_fields [simp]:
  "map_of (localStorage (set_loading p b w)) ''auth-store'' = Some (persist_string p (auth w))"
  "requests (set_loading p b w) = requests w"
  "store (set_loading p b w) = store w"
  "window (set_loading p b w) = window w"
  by (simp_all add: set_loading_def set_auth_def map_of_setItem)

text \<open>
  Claim C6. A startup run: the store holds what \<^verbatim>\<open>persist\<close> restored from
  \<^verbatim>\<open>localStorage\<close>, so it is signed in only if the persisted flag is truthy, and
  \<^verbatim>\<open>JSON.parse\<close> reads back the flag that the persisted copy was written with. When
  \<^verbatim>\<open>localStorage\<close> then holds no \<^verbatim>\<open>auth-store\<close> entry (or an empty one), or the
  persisted \<^verbatim>\<open>isAuthenticated\<close> flag is missing or falsy, \<open>hydrate\<close> sends no request
  and leaves \<open>user\<close> null, \<open>isAuthenticated\<close> false, \<open>error\<close> null and \<open>loading\<close>
  false. Both stores behave alike here.
\<close>

theorem hydrate_without_flag:
  assumes stored:
      "map_of (localStorage w) ''auth-store'' = None
       \<or> map_of (localStorage w) ''auth-store'' = Some []
       \<or> (\<exists>s parsed. map_of (localStorage w) ''auth-store'' = Some s
             \<and> JSON_parse p s = Inr parsed
             \<and> \<not> truthy (opt_get (opt_get parsed ''state'') ''isAuthenticated''))"
    and restored:
      "isAuthenticated (auth w) \<longrightarrow>
         (\<exists>s parsed. map_of (localStorage w) ''auth-store'' = Some s \<and> s \<noteq> []
             \<and> JSON_parse p s = Inr parsed
             \<and> truthy (opt_get (opt_get parsed ''state'') ''isAuthenticated''))"
    and reads_back:
      "JSON_parse p (persist_string p (auth w)) = Inr v"
      "opt_get (opt_get v ''state'') ''isAuthenticated'' = JBool (isAuthenticated (auth w))"
  shows "issued w (hydrate p w) = []
         \<and> requests (hydrate p w) = requests w
         \<and> user (auth (hydrate p w)) = JNull
         \<and> \<not> isAuthenticated (auth (hydrate p w))
         \<and> error (auth (hydrate p w)) = JNull
         \<and> \<not> loading (auth (hydrate p w))
         \<and> hydrate_v1 p w = hydrate p w"
proof -
  have flag: "\<not> isAuthenticated (auth w)"
    using stored restored by auto
  have "read_persisted p (set_loading p True w) =
          (Inr None, set_signed_out_idle p (set_loading p True w))"
    by (rule read_persisted_without_flag [where s = "persist_string p (auth w)"])
       (use flag reads_back in simp_all)
  then show ?thesis
    by (simp add: hydrate_def hydrate_try_def hydrate_v1_def hydrate_v1_try_def
        set_signed_out_idle_def set_loading_def set_auth_def issued_def)
qed

text \<open>
  The application starts with an empty storage, and with a persisted state that says
  signed out.
\<close>

theorem hydrate_without_flag_witness:
  "auth (hydrate (demo_platform []) (startup_world [])) =
     \<lparr>user = JNull, isAuthenticated = False, loading = False, error = JNull\<rparr>
   \<and> requests (hydrate (demo_platform []) (startup_world [])) = []
   \<and> auth (hydrate (demo_platform []) (startup_world [(''auth-store'', demo_saved_out)])) =
     \<lparr>user = JNull, isAuthenticated = False, loading = False, error = JNull\<rparr>
   \<and> requests (hydrate (demo_platform []) (startup_world [(''auth-store'', demo_saved_out)])) = []"
  using hydrate_without_flag [of "startup_world []" "demo_platform []" demo_out]
    hydrate_without_flag [of "startup_world [(''auth-store'', demo_saved_out)]" "demo_platform []" demo_out]
  by (simp add: demo_defs)

text \<open>
  The store with refresh fails closed: after \<open>hydrate\<close> the session is either cleared
  or filled from a success response of the identity check.
\<close>

lemma hydrate_fails_closed:
  "(user (auth (hydrate p w)) = JNull \<and> \<not> isAuthenticated (auth (hydrate p w)))
   \<or> (\<exists>h r u. transport p h \<lparr>target = me_url p, init = me_init\<rparr> = Inr r \<and> ok r \<and> json r = Inr u
         \<and> user (auth (hydrate p w)) = u \<and> isAuthenticated (auth (hydrate p w)))"
  by (auto simp: hydrate_defs split: sum.splits option.splits prod.splits if_splits)

text \<open>
  Claim C5 asks every failed verification to clear the session. The first store's
  \<open>hydrate_v1\<close> does not: with a persisted flag of true, an identity check answered
  500, or one that fails on the network, only sets \<open>error\<close> and leaves \<open>user\<close> and
  \<open>isAuthenticated\<close> as persisted. The second store's \<open>hydrate\<close> clears the session
  on the same inputs.
\<close>

theorem hydrate_v1_keeps_session:
  "isAuthenticated (auth (hydrate_v1 (demo_platform [Inr (reply 500)]) (demo_world None)))
   \<and> user (auth (hydrate_v1 (demo_platform [Inr (reply 500)]) (demo_world None))) = JObj [(''id'', JNum 1)]
   \<and> error (auth (hydrate_v1 (demo_platform [Inr (reply 500)]) (demo_world None))) =
       JStr ''Failed to hydrate auth state''
   \<and> isAuthenticated (auth (hydrate_v1 (demo_platform [Inl (NetworkError ''offline'')]) (demo_world None)))
   \<and> error (auth (hydrate_v1 (demo_platform [Inl (NetworkError ''offline'')]) (demo_world None))) =
       JStr ''offline''
   \<and> \<not> isAuthenticated (auth (hydrate (demo_platform [Inr (reply 500)]) (demo_world None)))
   \<and> \<not> isAuthenticated (auth (hydrate (demo_platform [Inl (NetworkError ''offline'')]) (demo_world None)))"
  by (simp add: demo_defs hydrate_defs me_url_def me_init_def)

section \<open>Properties of the product store\<close>

lemma products_url_not_refresh:
  "products_url p \<noteq> refresh_url p" "product_url p productId \<noteq> refresh_url p"
  by (simp_all add: products_url_def product_url_def refresh_url_def)

lemmas store_defs = fetchProducts_def fetchProducts_try_def createProduct_def createProduct_try_def
  updateProduct_def updateProduct_try_def deleteProduct_def deleteProduct_try_def
  begin_op_def end_op_def set_store_def fetch_def issued_def console_error_def

lemma ok_not_401: "status r = 401 \<Longrightarrow> \<not> ok r"
  by (simp add: ok_def)

lemma productStore_one_request:
  "issued w (snd (fetchProducts p w)) = [\<lparr>target = products_url p, init = json_init ''GET'' None\<rparr>]"
  "issued w (snd (createProduct p productData w)) =
     [\<lparr>target = products_url p, init = json_init ''POST'' (JSON_stringify p productData)\<rparr>]"
  "issued w (snd (updateProduct p productId productData w)) =
     [\<lparr>target = product_url p productId, init = json_init ''PUT'' (JSON_stringify p productData)\<rparr>]"
  "issued w (snd (deleteProduct p productId w)) =
     [\<lparr>target = product_url p productId, init = json_init ''DELETE'' None\<rparr>]"
  by (auto simp: store_defs split: sum.splits)

text \<open>
  Claim C10. The four product operations call \<open>fetch\<close> directly. Each sends exactly
  one request, never one to the refresh endpoint, and leaves the session alone; on a 401
  the store's error becomes \<^verbatim>\<open>Unauthorized\<close>, and \<open>fetchProducts\<close> also empties
  the product list.
\<close>

theorem productStore_unauthorized:
  "(\<forall>r. transport p (requests w) \<lparr>target = products_url p, init = json_init ''GET'' None\<rparr> = Inr r
          \<and> status r = 401 \<longrightarrow>
      p_error (store (snd (fetchProducts p w))) = JStr ''Unauthorized''
      \<and> products (store (snd (fetchProducts p w))) = JArr [])
   \<and> (\<forall>r. transport p (requests w)
            \<lparr>target = products_url p, init = json_init ''POST'' (JSON_stringify p productData)\<rparr> = Inr r
          \<and> status r = 401 \<longrightarrow>
      p_error (store (snd (createProduct p productData w))) = JStr ''Unauthorized'')
   \<and> (\<forall>r. transport p (requests w)
            \<lparr>target = product_url p productId, init = json_init ''PUT'' (JSON_stringify p productData)\<rparr> = Inr r
          \<and> status r = 401 \<longrightarrow>
      p_error (store (snd (updateProduct p productId productData w))) = JStr ''Unauthorized'')
   \<and> (\<forall>r. transport p (requests w)
            \<lparr>target = product_url p productId, init = json_init ''DELETE'' None\<rparr> = Inr r
          \<and> status r = 401 \<longrightarrow>
      p_error (store (snd (deleteProduct p productId w))) = JStr ''Unauthorized'')
   \<and> (\<forall>w' \<in> {snd (fetchProducts p w), snd (createProduct p productData w),
               snd (updateProduct p productId productData w), snd (deleteProduct p productId w)}.
        length (issued w w') = 1
        \<and> (\<forall>q \<in> set (issued w w'). target q \<noteq> refresh_url p)
        \<and> auth w' = auth w)"
proof -
  have unauth:
    "\<And>r. transport p (requests w) \<lparr>target = products_url p, init = json_init ''GET'' None\<rparr> = Inr r
          \<Longrightarrow> status r = 401 \<Longrightarrow>
      p_error (store (snd (fetchProducts p w))) = JStr ''Unauthorized''
      \<and> products (store (snd (fetchProducts p w))) = JArr []"
    "\<And>r. transport p (requests w)
            \<lparr>target = products_url p, init = json_init ''POST'' (JSON_stringify p productData)\<rparr> = Inr r
          \<Longrightarrow> status r = 401 \<Longrightarrow>
      p_error (store (snd (createProduct p productData w))) = JStr ''Unauthorized''"
    "\<And>r. transport p (requests w)
            \<lparr>target = product_url p productId, init = json_init ''PUT'' (JSON_stringify p productData)\<rparr> = Inr r
          \<Longrightarrow> status r = 401 \<Longrightarrow>
      p_error (store (snd (updateProduct p productId productData w))) = JStr ''Unauthorized''"
    "\<And>r. transport p (requests w)
            \<lparr>target = product_url p productId, init = json_init ''DELETE'' None\<rparr> = Inr r
          \<Longrightarrow> status r = 401 \<Longrightarrow>
      p_error (store (snd (deleteProduct p productId w))) = JStr ''Unauthorized''"
    by (simp_all add: store_defs ok_not_401)
  have frame:
    "auth (snd (fetchProducts p w)) = auth w"
    "auth (snd (createProduct p productData w)) = auth w"
    "auth (snd (updateProduct p productId productData w)) = auth w"
    "auth (snd (deleteProduct p productId w)) = auth w"
    by (auto simp: store_defs split: sum.splits)
  show ?thesis
    using unauth frame productStore_one_request[of w p] products_url_not_refresh[of p]
    by simp
qed

text \<open>Each operation answered with a 401.\<close>

theorem productStore_unauthorized_witness:
  "store (snd (fetchProducts (demo_platform [Inr (reply 401)]) (demo_world None))) =
     \<lparr>products = JArr [], p_loading = False, p_error = JStr ''Unauthorized''\<rparr>
   \<and> length (requests (snd (fetchProducts (demo_platform [Inr (reply 401)]) (demo_world None)))) = 1
   \<and> p_error (store (snd (createProduct (demo_platform [Inr (reply 401)]) (JObj []) (demo_world None)))) =
       JStr ''Unauthorized''
   \<and> p_error (store (snd (updateProduct (demo_platform [Inr (reply 401)]) (JNum 7) (JObj []) (demo_world None)))) =
       JStr ''Unauthorized''
   \<and> p_error (store (snd (deleteProduct (demo_platform [Inr (reply 401)]) (JNum 7) (demo_world None)))) =
       JStr ''Unauthorized''"
  using productStore_unauthorized [of "demo_platform [Inr (reply 401)]" "demo_world None" "JObj []" "JNum 7"]
  by (simp add: demo_defs store_defs products_url_def product_url_def json_init_def)

end
